theory Spec2Isabelle
  imports Main
begin

section \<open>JavaScript values and the SDK boundary\<close>

text \<open>
  Strings are \<open>string\<close>; a character is read as a code unit below 256 (Latin-1), so text
  beyond that range is outside the model. A value that may be \<open>null\<close> or \<open>undefined\<close>
  is an \<open>option\<close>. An awaited call either resolves with a value or rejects with a
  thrown value; the thrown value is an \<open>Error\<close> carrying a message, or something else.
\<close>

datatype thrown = ErrorObj string | NonError

datatype 'a outcome = Rejects thrown | Resolves 'a

text \<open>Truthiness of an optional string: \<open>null\<close>, \<open>undefined\<close> and \<open>''\<close> are falsy.\<close>

fun truthy :: "string option \<Rightarrow> bool" where
  "truthy None = False"
| "truthy (Some s) = (s \<noteq> [])"

text \<open>\<open>x || null\<close> on an optional string.\<close>

definition or_null :: "string option \<Rightarrow> string option" where
  "or_null x = (if truthy x then x else None)"

text \<open>\<open>s || d\<close> on a string with a default.\<close>

definition or_default :: "string \<Rightarrow> string \<Rightarrow> string" where
  "or_default s d = (if s \<noteq> [] then s else d)"

text \<open>\<open>x || d\<close> on an optional string with a default.\<close>

fun opt_or_default :: "string option \<Rightarrow> string \<Rightarrow> string" where
  "opt_or_default None d = d"
| "opt_or_default (Some s) d = (if s \<noteq> [] then s else d)"

text \<open>\<open>String.prototype.toLowerCase\<close> on code units below 256.\<close>

definition lower_char :: "char \<Rightarrow> char" where
  "lower_char c =
     (let n = (of_char c :: nat)
      in if (65 \<le> n \<and> n \<le> 90) \<or> (192 \<le> n \<and> n \<le> 222 \<and> n \<noteq> 215)
         then char_of (n + 32) else c)"

definition toLowerCase :: "string \<Rightarrow> string" where
  "toLowerCase s = map lower_char s"

text \<open>\<open>String.prototype.trim\<close>: white space and line terminators below 256.\<close>

definition is_space :: "char \<Rightarrow> bool" where
  "is_space c = ((of_char c :: nat) \<in> {9, 10, 11, 12, 13, 32, 160})"

definition trim :: "string \<Rightarrow> string" where
  "trim s = rev (dropWhile is_space (rev (dropWhile is_space s)))"

text \<open>\<open>URLSearchParams.get\<close> on the parsed entries: the first value of the name.\<close>

definition params_get :: "(string \<times> string) list \<Rightarrow> string \<Rightarrow> string option" where
  "params_get ps k = map_of ps k"

record auth_error =
  err_message :: string
  err_name :: string

record session =
  access_token :: "string option"
  session_email :: "string option"

record user =
  user_id :: string
  user_email :: "string option"

text \<open>The \<open>{ data: { user, session }, error }\<close> answer of the auth calls.\<close>

record auth_response =
  resp_user :: "user option"
  resp_session :: "session option"
  resp_error :: "auth_error option"

text \<open>The \<open>{ data: { session }, error }\<close> answer of \<open>getSession\<close> and \<open>setSession\<close>.\<close>

record session_response =
  sr_session :: "session option"
  sr_error :: "auth_error option"

text \<open>The \<open>{ data, error }\<close> answer of a table query or of a remote procedure call.\<close>

record 'a query_response =
  q_data :: "'a option"
  q_error :: "auth_error option"

subsection \<open>Payloads\<close>

record SignUpData =
  streetAddress :: "string option"
  city :: "string option"
  country :: "string option"
  postalCode :: "string option"
  email :: string
  password :: string
  firstName :: string
  lastName :: string
  phone :: "string option"

record SignInData =
  si_email :: string
  si_password :: string

record signup_payload =
  sp_email :: string
  sp_password :: string
  sp_first_name :: string
  sp_last_name :: string
  sp_phone_number :: "string option"
  sp_street_address :: "string option"
  sp_city :: "string option"
  sp_country :: "string option"
  sp_postal_code :: "string option"

record rpc_payload =
  rp_user_id :: string
  rp_email :: "string option"
  rp_first_name :: string
  rp_last_name :: string
  rp_phone_number :: "string option"
  rp_street_address :: "string option"
  rp_city :: "string option"
  rp_country :: "string option"
  rp_postal_code :: "string option"

text \<open>The JSON answer of \<open>create_user_profile_secure\<close>.\<close>

record profile_result =
  pr_success :: bool
  pr_error :: "string option"

text \<open>The row of \<open>select('id, email')\<close>.\<close>

record id_email_row =
  ie_id :: string
  ie_email :: string

text \<open>
  Every request this code can send to the hosted backend. A run of a service method is
  modelled with the list of requests it sent, in order.
\<close>

datatype sdk_call =
  SelectIdEmailByEmail string
| SelectStatusByEmail string
| SelectProfileById string
| AuthSignUp signup_payload
| RpcCreateUserProfileSecure rpc_payload
| AuthSignInWithPassword string string
| AuthGetUser
| AuthUpdateUserPassword string
| AuthSetSession string string
| AuthGetSession

section \<open>AuthService.signUp\<close>

definition cleanupOrphanedAuthUser ::
  "string \<Rightarrow> id_email_row query_response outcome \<Rightarrow> bool \<times> sdk_call list" where
  "cleanupOrphanedAuthUser em q =
     (let sent = [SelectIdEmailByEmail (toLowerCase em)]
      in case q of
           Rejects err \<Rightarrow> (False, sent)
         | Resolves r \<Rightarrow>
             (case q_data r of
                Some existingProfile \<Rightarrow> (False, sent)
              | None \<Rightarrow> (False, sent)))"

definition signupPayload :: "SignUpData \<Rightarrow> signup_payload" where
  "signupPayload d =
     \<lparr> sp_email = email d, sp_password = password d,
       sp_first_name = firstName d, sp_last_name = lastName d,
       sp_phone_number = phone d, sp_street_address = streetAddress d,
       sp_city = city d, sp_country = country d, sp_postal_code = postalCode d \<rparr>"

definition rpcPayload :: "SignUpData \<Rightarrow> user \<Rightarrow> rpc_payload" where
  "rpcPayload d u =
     \<lparr> rp_user_id = user_id u, rp_email = user_email u,
       rp_first_name = or_default (firstName d) ''User'',
       rp_last_name = or_default (lastName d) ''Name'',
       rp_phone_number = or_null (phone d),
       rp_street_address = or_null (streetAddress d),
       rp_city = or_null (city d),
       rp_country = or_null (country d),
       rp_postal_code = or_null (postalCode d) \<rparr>"

definition profile_creation_error :: "string \<Rightarrow> auth_error" where
  "profile_creation_error m = \<lparr> err_message = m, err_name = ''ProfileCreationError'' \<rparr>"

text \<open>The inner \<open>try\<close> of \<open>signUp\<close>: the profile-creation call and what is returned after it.\<close>

definition signUp_profile ::
  "user \<Rightarrow> profile_result query_response outcome \<Rightarrow> user option \<times> auth_error option" where
  "signUp_profile u rpc =
     (case rpc of
        Rejects profileError \<Rightarrow>
          (None, Some (profile_creation_error ''Registration failed during profile creation''))
      | Resolves r \<Rightarrow>
          (case q_error r of
             Some rpcError \<Rightarrow>
               (None, Some (profile_creation_error
                              (''Registration failed: '' @ err_message rpcError)))
           | None \<Rightarrow>
               (case q_data r of
                  None \<Rightarrow>
                    (None, Some (profile_creation_error
                                   (''Registration failed: '' @ opt_or_default None ''Unknown error'')))
                | Some profileResult \<Rightarrow>
                    if \<not> pr_success profileResult
                    then (None, Some (profile_creation_error
                            (''Registration failed: '' @
                               opt_or_default (pr_error profileResult) ''Unknown error'')))
                    else (Some u, None))))"

text \<open>
  \<open>signUp d q su rpc\<close>: \<open>q\<close> answers the orphan check's query, \<open>su\<close> the auth sign-up,
  \<open>rpc\<close> the profile-creation call. The result is the returned \<open>{ user, error }\<close> and
  the requests sent.
\<close>

definition signUp ::
  "SignUpData \<Rightarrow> id_email_row query_response outcome \<Rightarrow> auth_response outcome \<Rightarrow>
   profile_result query_response outcome \<Rightarrow> (user option \<times> auth_error option) \<times> sdk_call list" where
  "signUp d q su rpc =
     (let sent0 = snd (cleanupOrphanedAuthUser (email d) q);
          sent1 = sent0 @ [AuthSignUp (signupPayload d)]
      in case su of
           Rejects err \<Rightarrow>
             ((None, Some \<lparr> err_message = ''Registration failed'',
                            err_name = ''RegistrationError'' \<rparr>), sent1)
         | Resolves authData \<Rightarrow>
             (case resp_error authData of
                Some e \<Rightarrow> ((None, Some e), sent1)
              | None \<Rightarrow>
                  (case resp_user authData of
                     None \<Rightarrow> ((None, None), sent1)
                   | Some u \<Rightarrow>
                       (signUp_profile u rpc,
                        sent1 @ [RpcCreateUserProfileSecure (rpcPayload d u)]))))"

section \<open>AuthService.signIn and its background calls\<close>

record log_params =
  p_user_id :: "string option"
  p_user_email :: string
  p_user_role :: string
  p_session_id :: "string option"
  p_ip_address :: "string option"
  p_user_agent :: string
  p_status :: string
  p_details :: "string option"
  p_error_message :: "string option"

text \<open>
  The backend as \<open>signIn\<close> and its helpers reach it: every request answers after a
  latency (in milliseconds) with an outcome. A remote procedure call resolves with
  \<open>{ data, error }\<close>, of which only the error is kept: \<open>Resolves None\<close> is a call
  that succeeds, \<open>Resolves (Some e)\<close> one that fails, \<open>Rejects x\<close> one that throws.
\<close>

record backend =
  signInWithPassword :: "string \<Rightarrow> string \<Rightarrow> nat \<times> auth_response outcome"
  rpc_log_auth_event :: "string \<Rightarrow> log_params \<Rightarrow> nat \<times> auth_error option outcome"
  rpc_update_user_last_login :: "string \<Rightarrow> nat \<times> auth_error option outcome"
  sendLoginWelcomeEmail :: "string \<Rightarrow> string \<Rightarrow> nat \<times> unit outcome"

text \<open>
  \<open>await\<close>: the function that awaits a request at time \<open>now\<close> goes on when the answer
  is there, with the outcome.
\<close>

definition await :: "nat \<Rightarrow> nat \<times> 'a outcome \<Rightarrow> nat \<times> 'a outcome" where
  "await now reply = (now + fst reply, snd reply)"

datatype promise_state = Fulfilled | Rejected

text \<open>
  The body \<open>try { await request } catch (error) { warn }\<close> of the three async
  functions: it ends when the request has answered; a rejection is caught and a
  resolved answer is not inspected, so the promise of the function is fulfilled.
\<close>

definition try_await :: "nat \<Rightarrow> nat \<times> 'a outcome \<Rightarrow> nat \<times> promise_state" where
  "try_await now reply =
     (case await now reply of
        (t, Rejects error) \<Rightarrow> (t, Fulfilled)
      | (t, Resolves r) \<Rightarrow> (t, Fulfilled))"

datatype bg_task =
  LogAuthEvent string log_params
| UpdateLastLogin string
| SendLoginWelcomeEmail string string

text \<open>
  An async function called without \<open>await\<close>: the caller gets nothing back and goes on
  at the time of the call; the function's own promise settles when its body ends.
\<close>

record detached =
  dt_task :: bg_task
  started_at :: nat
  settles_at :: nat
  settles_as :: promise_state

definition logAuthEventAsync :: "backend \<Rightarrow> nat \<Rightarrow> string \<Rightarrow> log_params \<Rightarrow> detached" where
  "logAuthEventAsync b now eventType params =
     (case try_await now (rpc_log_auth_event b eventType params) of
        (t, p) \<Rightarrow> \<lparr> dt_task = LogAuthEvent eventType params, started_at = now,
                    settles_at = t, settles_as = p \<rparr>)"

definition updateLastLoginAsync :: "backend \<Rightarrow> nat \<Rightarrow> string \<Rightarrow> detached" where
  "updateLastLoginAsync b now userId =
     (case try_await now (rpc_update_user_last_login b userId) of
        (t, p) \<Rightarrow> \<lparr> dt_task = UpdateLastLogin userId, started_at = now,
                    settles_at = t, settles_as = p \<rparr>)"

definition sendLoginWelcomeEmailAsync :: "backend \<Rightarrow> nat \<Rightarrow> string \<Rightarrow> string \<Rightarrow> detached" where
  "sendLoginWelcomeEmailAsync b now userId em =
     (case try_await now (sendLoginWelcomeEmail b userId em) of
        (t, p) \<Rightarrow> \<lparr> dt_task = SendLoginWelcomeEmail userId em, started_at = now,
                    settles_at = t, settles_as = p \<rparr>)"

definition failure_params :: "string \<Rightarrow> string \<Rightarrow> string \<Rightarrow> log_params" where
  "failure_params em ua msg =
     \<lparr> p_user_id = None, p_user_email = em, p_user_role = ''client'', p_session_id = None,
       p_ip_address = None, p_user_agent = ua, p_status = ''failure'', p_details = None,
       p_error_message = Some msg \<rparr>"

definition session_id_prefix :: "session option \<Rightarrow> string option" where
  "session_id_prefix s =
     (case s of None \<Rightarrow> None
      | Some se \<Rightarrow> (case access_token se of None \<Rightarrow> None | Some t \<Rightarrow> Some (take 20 t)))"

definition success_params :: "user \<Rightarrow> string \<Rightarrow> string \<Rightarrow> session option \<Rightarrow> log_params" where
  "success_params u em ua s =
     \<lparr> p_user_id = Some (user_id u), p_user_email = em, p_user_role = ''client'',
       p_session_id = session_id_prefix s, p_ip_address = None, p_user_agent = ua,
       p_status = ''success'', p_details = None, p_error_message = None \<rparr>"

text \<open>
  What a call of \<open>signIn\<close> gives: the \<open>{ user, error }\<close> it returns, the time at which
  it returns, and the async functions it called without awaiting them, in order.
\<close>

record signin_run =
  returned :: "user option \<times> auth_error option"
  returned_at :: nat
  background :: "detached list"

text \<open>
  \<open>signIn b now d ua\<close>: called at time \<open>now\<close> on backend \<open>b\<close>; \<open>ua\<close> is
  \<open>navigator.userAgent\<close>. Only \<open>signInWithPassword\<close> is awaited; the helpers are
  called at the time \<open>t\<close> the method has reached and do not move it.
\<close>

definition signIn :: "backend \<Rightarrow> nat \<Rightarrow> SignInData \<Rightarrow> string \<Rightarrow> signin_run" where
  "signIn b now d ua =
     (case await now (signInWithPassword b (si_email d) (si_password d)) of
        (t, Rejects err) \<Rightarrow>
          \<lparr> returned =
              (None, Some \<lparr> err_message = ''Sign in failed'', err_name = ''SignInError'' \<rparr>),
            returned_at = t,
            background =
              [logAuthEventAsync b t ''login_failed''
                 (failure_params (si_email d) ua ''Unexpected error during login'')] \<rparr>
      | (t, Resolves authData) \<Rightarrow>
          (case (resp_error authData, resp_user authData) of
             (Some e, _) \<Rightarrow>
               \<lparr> returned = (None, Some e),
                 returned_at = t,
                 background =
                   [logAuthEventAsync b t ''login_failed''
                      (failure_params (si_email d) ua
                         (or_default (err_message e) ''Login failed''))] \<rparr>
           | (None, None) \<Rightarrow>
               \<lparr> returned = (None, None),
                 returned_at = t,
                 background =
                   [logAuthEventAsync b t ''login_failed''
                      (failure_params (si_email d) ua ''Login failed'')] \<rparr>
           | (None, Some u) \<Rightarrow>
               \<lparr> returned = (Some u, None),
                 returned_at = t,
                 background =
                   [logAuthEventAsync b t ''login_success''
                      (success_params u (si_email d) ua (resp_session authData)),
                    updateLastLoginAsync b t (user_id u),
                    sendLoginWelcomeEmailAsync b t (user_id u) (si_email d)] \<rparr>))"

text \<open>The latency of the request a background task awaits.\<close>

fun task_latency :: "backend \<Rightarrow> bg_task \<Rightarrow> nat" where
  "task_latency b (LogAuthEvent eventType params) = fst (rpc_log_auth_event b eventType params)"
| "task_latency b (UpdateLastLogin userId) = fst (rpc_update_user_last_login b userId)"
| "task_latency b (SendLoginWelcomeEmail userId em) = fst (sendLoginWelcomeEmail b userId em)"

text \<open>
  A background call of a run that returned at \<open>t\<close>: started at \<open>t\<close>, settled when its
  own request has answered, never before \<open>t\<close>, and fulfilled.
\<close>

definition left_behind :: "backend \<Rightarrow> nat \<Rightarrow> detached \<Rightarrow> bool" where
  "left_behind b t x =
     (started_at x = t \<and> settles_at x = t + task_latency b (dt_task x) \<and> t \<le> settles_at x \<and>
      settles_as x = Fulfilled)"

section \<open>AuthService.getUserProfile\<close>

record users_row =
  col_id :: string
  col_email :: string
  col_first_name :: string
  col_last_name :: string
  col_phone_number :: "string option"
  col_role :: string
  col_status :: string
  col_suite_number :: "string option"
  col_avatar_url :: "string option"
  col_street_address :: "string option"
  col_city :: "string option"
  col_country :: "string option"
  col_postal_code :: "string option"

record AuthUser =
  au_id :: string
  au_email :: string
  au_firstName :: string
  au_lastName :: string
  au_role :: string
  au_phone :: "string option"
  au_suite_number :: "string option"
  au_status :: string
  au_avatarUrl :: "string option"
  au_profileImage :: "string option"
  au_isEmailVerified :: "bool option"
  au_accountStatus :: "string option"
  au_usShippingAddressId :: "string option"
  au_streetAddress :: "string option"
  au_city :: "string option"
  au_country :: "string option"
  au_postalCode :: "string option"

definition getUserProfile ::
  "string \<Rightarrow> users_row query_response outcome \<Rightarrow> AuthUser option \<times> sdk_call list" where
  "getUserProfile userId q =
     (let sent = [SelectProfileById userId]
      in case q of
           Rejects err \<Rightarrow> (None, sent)
         | Resolves r \<Rightarrow>
             (case (q_error r, q_data r) of
                (Some e, _) \<Rightarrow> (None, sent)
              | (None, None) \<Rightarrow> (None, sent)
              | (None, Some data) \<Rightarrow>
                  (Some \<lparr> au_id = col_id data,
                          au_email = col_email data,
                          au_firstName = col_first_name data,
                          au_lastName = col_last_name data,
                          au_role = col_role data,
                          au_phone = col_phone_number data,
                          au_suite_number = col_suite_number data,
                          au_status = col_status data,
                          au_avatarUrl = col_avatar_url data,
                          au_profileImage = col_avatar_url data,
                          au_isEmailVerified = Some True,
                          au_accountStatus = Some (col_status data),
                          au_usShippingAddressId = None,
                          au_streetAddress = col_street_address data,
                          au_city = col_city data,
                          au_country = col_country data,
                          au_postalCode = col_postal_code data \<rparr>, sent)))"

text \<open>
  The mirror the specification describes: the thirteen fields copied from the columns
  of the row, and no other field set.
\<close>

definition passthrough_mirror :: "users_row \<Rightarrow> AuthUser" where
  "passthrough_mirror data =
     \<lparr> au_id = col_id data,
       au_email = col_email data,
       au_firstName = col_first_name data,
       au_lastName = col_last_name data,
       au_role = col_role data,
       au_phone = col_phone_number data,
       au_suite_number = col_suite_number data,
       au_status = col_status data,
       au_avatarUrl = col_avatar_url data,
       au_profileImage = None,
       au_isEmailVerified = None,
       au_accountStatus = None,
       au_usShippingAddressId = None,
       au_streetAddress = col_street_address data,
       au_city = col_city data,
       au_country = col_country data,
       au_postalCode = col_postal_code data \<rparr>"

section \<open>AuthService.checkAccountStatus\<close>

text \<open>The row of \<open>select('status, first_name, email')\<close>.\<close>

record status_row =
  st_status :: "string option"
  st_first_name :: "string option"
  st_email :: string

record account_status =
  as_status :: "string option"
  canLogin :: bool
  as_message :: "string option"
  as_firstName :: "string option"

text \<open>\<open>`Hi${firstName ? ' ' + firstName : ''}`\<close>\<close>

fun greeting :: "string option \<Rightarrow> string" where
  "greeting None = ''Hi''"
| "greeting (Some f) = ''Hi'' @ (if f \<noteq> [] then '' '' @ f else [])"

text \<open>The \<open>switch\<close> on the lowercased status.\<close>

definition status_message :: "string option \<Rightarrow> string option \<Rightarrow> string" where
  "status_message accountStatus first =
     (if accountStatus = Some ''inactive'' then
        greeting first @ '', your account is currently inactive. Please contact support@vanguardcargo.co to reactivate your account.''
      else if accountStatus = Some ''suspended'' then
        greeting first @ '', your account has been suspended. Please contact support@vanguardcargo.co for assistance.''
      else if accountStatus = Some ''reported'' then
        greeting first @ '', your account is currently under review. Please contact support@vanguardcargo.co for more information.''
      else if accountStatus = Some ''pending_verification'' then
        greeting first @ '', please verify your email address before logging in. Check your inbox for the verification link.''
      else
        greeting first @ '', your account status does not allow login at this time. Please contact support@vanguardcargo.co for assistance.'')"

definition proceed :: account_status where
  "proceed = \<lparr> as_status = None, canLogin = True, as_message = None, as_firstName = None \<rparr>"

definition checkAccountStatus ::
  "string \<Rightarrow> status_row query_response outcome \<Rightarrow> account_status \<times> sdk_call list" where
  "checkAccountStatus em q =
     (let sent = [SelectStatusByEmail (toLowerCase em)]
      in case q of
           Rejects err \<Rightarrow> (proceed, sent)
         | Resolves r \<Rightarrow>
             (case (q_error r, q_data r) of
                (Some e, _) \<Rightarrow> (proceed, sent)
              | (None, None) \<Rightarrow> (proceed, sent)
              | (None, Some userData) \<Rightarrow>
                  (let accountStatus = map_option toLowerCase (st_status userData);
                       first = st_first_name userData
                   in if accountStatus = Some ''active''
                      then (\<lparr> as_status = accountStatus, canLogin = True,
                              as_message = None, as_firstName = first \<rparr>, sent)
                      else (\<lparr> as_status = accountStatus, canLogin = False,
                              as_message = Some (status_message accountStatus first),
                              as_firstName = first \<rparr>, sent))))"

section \<open>AuthService.changePassword\<close>

record change_result =
  cr_error :: "string option"
  cr_success :: "bool option"

definition change_failed :: "string \<Rightarrow> change_result" where
  "change_failed m = \<lparr> cr_error = Some m, cr_success = Some False \<rparr>"

text \<open>
  \<open>changePassword cur new gu si up\<close>: \<open>gu\<close> answers \<open>getUser\<close> (the \<open>user\<close> of its
  data), \<open>si\<close> the verification sign-in, \<open>up\<close> the \<open>updateUser\<close> call.
\<close>

definition changePassword ::
  "string \<Rightarrow> string \<Rightarrow> user option outcome \<Rightarrow> auth_response outcome \<Rightarrow>
   auth_response outcome \<Rightarrow> change_result \<times> sdk_call list" where
  "changePassword currentPassword newPassword gu si up =
     (case gu of
        Rejects err \<Rightarrow> (change_failed ''Failed to change password'', [AuthGetUser])
      | Resolves u \<Rightarrow>
          (case (case u of None \<Rightarrow> None | Some usr \<Rightarrow> user_email usr) of
             None \<Rightarrow> (change_failed ''No authenticated user found'', [AuthGetUser])
           | Some em \<Rightarrow>
               if em = [] then (change_failed ''No authenticated user found'', [AuthGetUser])
               else
                 (let sent1 = [AuthGetUser, AuthSignInWithPassword em currentPassword]
                  in case si of
                       Rejects err \<Rightarrow> (change_failed ''Failed to change password'', sent1)
                     | Resolves sr \<Rightarrow>
                         (case resp_error sr of
                            Some signInError \<Rightarrow>
                              (change_failed ''Current password is incorrect'', sent1)
                          | None \<Rightarrow>
                              (let sent2 = sent1 @ [AuthUpdateUserPassword newPassword]
                               in case up of
                                    Rejects err \<Rightarrow>
                                      (change_failed ''Failed to change password'', sent2)
                                  | Resolves ur \<Rightarrow>
                                      (case resp_error ur of
                                         Some updateError \<Rightarrow>
                                           (change_failed (err_message updateError), sent2)
                                       | None \<Rightarrow>
                                           (\<lparr> cr_error = None, cr_success = Some True \<rparr>,
                                            sent2)))))))"

section \<open>User interface effects\<close>

datatype callback_type = OAuth | Recovery | Unknown

text \<open>
  \<open>Navigate path replace from\<close> is \<open>navigate(path, { replace, state: { from } })\<close>; the
  other actions are the state setters of the components.
\<close>

datatype ui_action =
  SetError "string option"
| SetStatus string
| SetCallbackType callback_type
| SetLoading bool
| SetSuccessMessage "string option"
| SetPasswords string string string
| PreventDefault
| Navigate string bool "string option"

text \<open>
  What a handler does, in order: an action now, an action handed to \<open>setTimeout\<close> with
  its delay in milliseconds, an awaited pause, a request to the backend, the dispatch of
  \<open>initializeAuth\<close>, a call of \<open>authService.changePassword\<close>.
\<close>

datatype ui_effect =
  Do ui_action
| SetTimeout nat ui_action
| Wait nat
| Request sdk_call
| DispatchInitializeAuth
| CallChangePassword string string

text \<open>
  The messages a run puts on the screen: both components render the error panel only
  for a truthy \<open>error\<close>, so \<open>setError('')\<close> shows nothing.
\<close>

fun errors_shown :: "ui_effect list \<Rightarrow> string list" where
  "errors_shown [] = []"
| "errors_shown (Do (SetError (Some m)) # es) =
     (if m \<noteq> [] then m # errors_shown es else errors_shown es)"
| "errors_shown (e # es) = errors_shown es"

fun scheduled_navigations :: "ui_effect list \<Rightarrow> (nat \<times> string) list" where
  "scheduled_navigations [] = []"
| "scheduled_navigations (SetTimeout d (Navigate p r f) # es) = (d, p) # scheduled_navigations es"
| "scheduled_navigations (e # es) = scheduled_navigations es"

fun immediate_navigations :: "ui_effect list \<Rightarrow> string list" where
  "immediate_navigations [] = []"
| "immediate_navigations (Do (Navigate p r f) # es) = p # immediate_navigations es"
| "immediate_navigations (e # es) = immediate_navigations es"

fun requests :: "ui_effect list \<Rightarrow> sdk_call list" where
  "requests [] = []"
| "requests (Request c # es) = c # requests es"
| "requests (e # es) = requests es"

section \<open>AuthCallback.handleAuthCallback\<close>

definition expired_link :: string where
  "expired_link = ''Password reset link has expired or is invalid. Please request a new one.''"

text \<open>The \<open>catch\<close> block of the handler.\<close>

definition callback_catch :: "thrown \<Rightarrow> ui_effect list" where
  "callback_catch err =
     [Do (SetError (Some (case err of ErrorObj m \<Rightarrow> m
                          | NonError \<Rightarrow> ''Authentication failed. Please try again.''))),
      SetTimeout 3000 (Navigate ''/login'' False None)]"

text \<open>\<open>accessToken && refreshToken\<close>: both tokens, when both are truthy.\<close>

fun both_tokens :: "string option \<Rightarrow> string option \<Rightarrow> (string \<times> string) option" where
  "both_tokens (Some a) (Some r) = (if a \<noteq> [] \<and> r \<noteq> [] then Some (a, r) else None)"
| "both_tokens _ _ = None"

definition to_password_step :: "ui_effect list" where
  "to_password_step =
     [Do (SetStatus ''Redirecting to password reset...''), Wait 500,
      Do (Navigate ''/forgot-password?step=3'' True None)]"

definition recovery_failed :: "ui_effect list" where
  "recovery_failed =
     [Do (SetError (Some expired_link)),
      SetTimeout 3000 (Navigate ''/forgot-password'' False None)]"

text \<open>The recovery flow from \<open>getSession\<close> on (no usable session from the tokens).\<close>

definition recovery_existing :: "session_response outcome \<Rightarrow> ui_effect list" where
  "recovery_existing gs =
     Request AuthGetSession #
     (case gs of
        Rejects err \<Rightarrow> callback_catch err
      | Resolves r \<Rightarrow>
          (case sr_session r of
             Some existingSession \<Rightarrow> to_password_step
           | None \<Rightarrow> recovery_failed))"

definition recovery_flow ::
  "string option \<Rightarrow> string option \<Rightarrow> session_response outcome \<Rightarrow>
   session_response outcome \<Rightarrow> ui_effect list" where
  "recovery_flow accessToken refreshToken ss gs =
     [Do (SetCallbackType Recovery), Do (SetStatus ''Processing password reset...'')] @
     (case both_tokens accessToken refreshToken of
        Some (a, r) \<Rightarrow>
          Request (AuthSetSession a r) #
          (case ss of
             Rejects err \<Rightarrow> callback_catch err
           | Resolves d \<Rightarrow>
               (case sr_error d of
                  Some setSessionError \<Rightarrow> recovery_failed
                | None \<Rightarrow>
                    (case sr_session d of
                       Some s \<Rightarrow> to_password_step
                     | None \<Rightarrow> recovery_existing gs)))
      | None \<Rightarrow> recovery_existing gs)"

text \<open>The OAuth flow from the check of \<open>sessionError\<close> on.\<close>

definition oauth_finish ::
  "session option \<Rightarrow> auth_error option \<Rightarrow> unit outcome \<Rightarrow> ui_effect list" where
  "oauth_finish sess sessionError ia =
     (case sessionError of
        Some e \<Rightarrow>
          [Do (SetError (Some ''Failed to verify authentication. Please try again.'')),
           SetTimeout 3000 (Navigate ''/login'' False None)]
      | None \<Rightarrow>
          (case sess of
             None \<Rightarrow>
               [Do (SetError (Some ''No session found. Redirecting to login...'')),
                SetTimeout 2000 (Navigate ''/login'' False None)]
           | Some s \<Rightarrow>
               [Do (SetStatus ''Loading your profile...''), DispatchInitializeAuth] @
               (case ia of
                  Rejects err \<Rightarrow> callback_catch err
                | Resolves u \<Rightarrow>
                    [Do (SetStatus ''Success! Redirecting to dashboard...''), Wait 500,
                     Do (Navigate ''/dashboard'' True None)])))"

definition oauth_flow ::
  "string option \<Rightarrow> string option \<Rightarrow> session_response outcome \<Rightarrow>
   session_response outcome \<Rightarrow> unit outcome \<Rightarrow> ui_effect list" where
  "oauth_flow accessToken refreshToken ss gs ia =
     [Do (SetCallbackType OAuth), Do (SetStatus ''Verifying your credentials...''),
      Request AuthGetSession] @
     (case gs of
        Rejects err \<Rightarrow> callback_catch err
      | Resolves g \<Rightarrow>
          (case (sr_session g, both_tokens accessToken refreshToken) of
             (None, Some (a, r)) \<Rightarrow>
               Request (AuthSetSession a r) #
               (case ss of
                  Rejects err \<Rightarrow> callback_catch err
                | Resolves d \<Rightarrow>
                    if sr_error d = None \<and> sr_session d \<noteq> None
                    then oauth_finish (sr_session d) None ia
                    else oauth_finish (sr_session g) (sr_error d) ia)
           | _ \<Rightarrow> oauth_finish (sr_session g) (sr_error g) ia))"

text \<open>
  \<open>handleAuthCallback ps ss gs ia\<close>: \<open>ps\<close> are the entries of the URL hash, \<open>ss\<close>
  answers \<open>setSession\<close>, \<open>gs\<close> answers \<open>getSession\<close>, \<open>ia\<close> is the outcome of the
  dispatched \<open>initializeAuth\<close>.
\<close>

definition handleAuthCallback ::
  "(string \<times> string) list \<Rightarrow> session_response outcome \<Rightarrow> session_response outcome \<Rightarrow>
   unit outcome \<Rightarrow> ui_effect list" where
  "handleAuthCallback ps ss gs ia =
     (let type = params_get ps ''type'';
          accessToken = params_get ps ''access_token'';
          refreshToken = params_get ps ''refresh_token'';
          errorDescription = params_get ps ''error_description''
      in if truthy errorDescription
         then [Do (SetError errorDescription),
               SetTimeout 3000 (Navigate ''/login'' False None)]
         else if type = Some ''recovery''
         then recovery_flow accessToken refreshToken ss gs
         else oauth_flow accessToken refreshToken ss gs ia)"

section \<open>SecuritySettings.handleSubmit\<close>

record passwords =
  currentPassword :: string
  newPassword :: string
  confirmPassword :: string

text \<open>\<open>/\d/.test(s)\<close>\<close>

definition is_digit :: "char \<Rightarrow> bool" where
  "is_digit c = (48 \<le> (of_char c :: nat) \<and> (of_char c :: nat) \<le> 57)"

definition has_digit :: "string \<Rightarrow> bool" where
  "has_digit s = list_ex is_digit s"

text \<open>
  \<open>handleSubmit usr pw resp\<close>: \<open>usr\<close> is the user of the auth hook, \<open>pw\<close> the form
  state, \<open>resp\<close> the outcome of the awaited \<open>authService.changePassword\<close>.
\<close>

definition handleSubmit ::
  "user option \<Rightarrow> passwords \<Rightarrow> change_result outcome \<Rightarrow> ui_effect list" where
  "handleSubmit usr pw resp =
     Do PreventDefault #
     (if usr = None then [Do (SetError (Some ''User not authenticated''))]
      else if currentPassword pw = [] then [Do (SetError (Some ''Current password is required''))]
      else if newPassword pw = [] then [Do (SetError (Some ''New password is required''))]
      else if confirmPassword pw = [] then
        [Do (SetError (Some ''Please confirm your new password''))]
      else if newPassword pw \<noteq> confirmPassword pw then
        [Do (SetError (Some ''New passwords do not match''))]
      else if length (newPassword pw) < 6 then
        [Do (SetError (Some ''Password must be at least 6 characters long''))]
      else if \<not> has_digit (newPassword pw) then
        [Do (SetError (Some ''Password must contain at least one number''))]
      else
        [Do (SetLoading True), Do (SetError None), Do (SetSuccessMessage None),
         CallChangePassword (currentPassword pw) (newPassword pw)] @
        (case resp of
           Rejects err \<Rightarrow>
             [Do (SetError (Some ''Failed to change password. Please try again.''))]
         | Resolves response \<Rightarrow>
             if cr_success response = Some True
             then [Do (SetSuccessMessage (Some ''Password changed successfully!'')),
                   Do (SetPasswords [] [] []),
                   SetTimeout 5000 (SetSuccessMessage None)]
             else [Do (SetError (Some (opt_or_default (cr_error response)
                                         ''Failed to change password'')))]) @
        [Do (SetLoading False)])"

section \<open>Route guards\<close>

datatype rendered =
  LoadingScreen string
| Children
| ChildrenWithPhoneModal
| NavigateTo string
| Nothing

subsection \<open>PublicRoute\<close>

text \<open>
  \<open>PublicRoute redirectTo isAuthenticated isLoading profile currentPath search\<close>:
  \<open>redirectTo\<close> is the optional prop, the next three are the Redux selectors,
  \<open>currentPath\<close> is \<open>location.pathname\<close> and \<open>search\<close> the entries of
  \<open>location.search\<close>.
\<close>

definition PublicRoute ::
  "string option \<Rightarrow> bool \<Rightarrow> bool \<Rightarrow> AuthUser option \<Rightarrow> string \<Rightarrow>
   (string \<times> string) list \<Rightarrow> rendered" where
  "PublicRoute redirectTo isAuthenticated isLoading profile currentPath search =
     (let target = (case redirectTo of None \<Rightarrow> ''/app'' | Some t \<Rightarrow> t);
          isPasswordRecoveryFlow =
            (currentPath = ''/forgot-password'' \<and> params_get search ''step'' = Some ''3'');
          hasInlineLoader = (currentPath \<in> set [''/login'', ''/register'']);
          profileStatus = map_option au_status profile
      in if isLoading \<and> \<not> hasInlineLoader then LoadingScreen ''Loading...''
         else if isAuthenticated \<and> profileStatus = Some ''active'' then
           (if isPasswordRecoveryFlow then Children else NavigateTo target)
         else if isAuthenticated \<and> profileStatus = Some ''pending_verification'' then
           (if currentPath \<in> set [''/verify-email'', ''/resend-verification'']
            then Children else NavigateTo ''/verify-email'')
         else Children)"

subsection \<open>ReduxAuthGuard\<close>

text \<open>\<open>profile?.phone && profile.phone.trim().length > 0\<close>\<close>

definition hasPhone :: "AuthUser option \<Rightarrow> bool" where
  "hasPhone profile =
     (case profile of
        None \<Rightarrow> False
      | Some p \<Rightarrow>
          (case au_phone p of
             None \<Rightarrow> False
           | Some ph \<Rightarrow> ph \<noteq> [] \<and> length (trim ph) > 0))"

text \<open>\<open>user?.id\<close> as a condition.\<close>

definition has_id :: "user option \<Rightarrow> bool" where
  "has_id usr = (case usr of None \<Rightarrow> False | Some u \<Rightarrow> user_id u \<noteq> [])"

text \<open>
  \<open>ReduxAuthGuard isAuthenticated isInitialized profile usr path\<close> gives what is
  rendered and what the two effects of the component do after the render.
\<close>

definition ReduxAuthGuard ::
  "bool \<Rightarrow> bool \<Rightarrow> AuthUser option \<Rightarrow> user option \<Rightarrow> string \<Rightarrow>
   rendered \<times> ui_effect list" where
  "ReduxAuthGuard isAuthenticated isInitialized profile usr path =
     (let effects =
            (if \<not> isInitialized then [DispatchInitializeAuth] else []) @
            (if \<not> isInitialized then []
             else if \<not> isAuthenticated then [Do (Navigate ''/login'' True (Some path))]
             else [])
      in if \<not> isInitialized then (LoadingScreen ''Checking authentication...'', effects)
         else if \<not> isAuthenticated then (Nothing, effects)
         else if \<not> hasPhone profile \<and> has_id usr then (ChildrenWithPhoneModal, effects)
         else (Children, effects))"

text \<open>The phone is absent, empty, or made of white space only.\<close>

definition phone_missing :: "AuthUser option \<Rightarrow> bool" where
  "phone_missing profile =
     (case profile of
        None \<Rightarrow> True
      | Some p \<Rightarrow> (case au_phone p of None \<Rightarrow> True | Some ph \<Rightarrow> list_all is_space ph))"

section \<open>Conditions the properties are stated with\<close>

text \<open>The auth sign-up answered with a user and no error: the user it created.\<close>

definition auth_user_created :: "auth_response outcome \<Rightarrow> user option" where
  "auth_user_created su =
     (case su of
        Rejects err \<Rightarrow> None
      | Resolves a \<Rightarrow> (case resp_error a of Some e \<Rightarrow> None | None \<Rightarrow> resp_user a))"

text \<open>
  The profile-creation call failed: it threw, answered with an error, answered with no
  result, or answered with a result whose \<open>success\<close> is not true.
\<close>

definition rpc_fails :: "profile_result query_response outcome \<Rightarrow> bool" where
  "rpc_fails rpc =
     (case rpc of
        Rejects err \<Rightarrow> True
      | Resolves r \<Rightarrow>
          (case (q_error r, q_data r) of
             (Some e, _) \<Rightarrow> True
           | (None, None) \<Rightarrow> True
           | (None, Some p) \<Rightarrow> \<not> pr_success p))"

definition signUp_succeeds ::
  "auth_response outcome \<Rightarrow> profile_result query_response outcome \<Rightarrow> bool" where
  "signUp_succeeds su rpc = (auth_user_created su \<noteq> None \<and> \<not> rpc_fails rpc)"

text \<open>The auth sign-up answered with neither a user nor an error.\<close>

definition sdk_silent :: "auth_response outcome \<Rightarrow> bool" where
  "sdk_silent su =
     (case su of
        Rejects err \<Rightarrow> False
      | Resolves a \<Rightarrow> resp_error a = None \<and> resp_user a = None)"

text \<open>The row the status query found, if it answered without error.\<close>

definition found_row :: "status_row query_response outcome \<Rightarrow> status_row option" where
  "found_row q =
     (case q of
        Rejects err \<Rightarrow> None
      | Resolves r \<Rightarrow> (case q_error r of Some e \<Rightarrow> None | None \<Rightarrow> q_data r))"

definition lowered_status :: "status_row \<Rightarrow> string option" where
  "lowered_status row = map_option toLowerCase (st_status row)"

text \<open>The email of the authenticated user, when there is a user and the email is not empty.\<close>

definition authenticated_email :: "user option outcome \<Rightarrow> string option" where
  "authenticated_email gu =
     (case gu of
        Rejects err \<Rightarrow> None
      | Resolves None \<Rightarrow> None
      | Resolves (Some u) \<Rightarrow>
          (case user_email u of None \<Rightarrow> None | Some e \<Rightarrow> if e = [] then None else Some e))"

text \<open>The verification sign-in answered with an error.\<close>

definition signin_error :: "auth_response outcome \<Rightarrow> bool" where
  "signin_error si =
     (case si of Rejects err \<Rightarrow> False | Resolves sr \<Rightarrow> resp_error sr \<noteq> None)"

text \<open>The email the current password was verified for: the sign-in answered with no error.\<close>

definition verified_email ::
  "user option outcome \<Rightarrow> auth_response outcome \<Rightarrow> string option" where
  "verified_email gu si =
     (case authenticated_email gu of
        None \<Rightarrow> None
      | Some e \<Rightarrow>
          (case si of
             Rejects err \<Rightarrow> None
           | Resolves sr \<Rightarrow> (case resp_error sr of Some x \<Rightarrow> None | None \<Rightarrow> Some e)))"

text \<open>The form passes every check of \<open>handleSubmit\<close> made before the call.\<close>

definition submit_valid :: "user option \<Rightarrow> passwords \<Rightarrow> bool" where
  "submit_valid usr pw =
     (usr \<noteq> None \<and> currentPassword pw \<noteq> [] \<and> newPassword pw \<noteq> [] \<and>
      confirmPassword pw \<noteq> [] \<and> newPassword pw = confirmPassword pw \<and>
      6 \<le> length (newPassword pw) \<and> has_digit (newPassword pw))"

definition change_succeeded :: "change_result outcome \<Rightarrow> bool" where
  "change_succeeded resp =
     (case resp of
        Rejects err \<Rightarrow> False
      | Resolves response \<Rightarrow> cr_success response = Some True)"

text \<open>
  One error message is shown and one navigation is handed to \<open>setTimeout\<close>, with a delay
  of 3000 ms, or of 2000 ms under the no-session message; nothing navigates at once.
\<close>

definition error_then_redirect :: "ui_effect list \<Rightarrow> bool" where
  "error_then_redirect es =
     (\<exists>m d p. errors_shown es = [m] \<and> scheduled_navigations es = [(d, p)] \<and>
        immediate_navigations es = [] \<and>
        (d = 3000 \<or> (d = 2000 \<and> m = ''No session found. Redirecting to login...'')))"

text \<open>The redirect to \<open>/login\<close> after 3000 ms with no message on the screen.\<close>

definition redirect_only :: "ui_effect list \<Rightarrow> bool" where
  "redirect_only es =
     (errors_shown es = [] \<and> scheduled_navigations es = [(3000, ''/login'')] \<and>
      immediate_navigations es = [])"

text \<open>The run went on to the next page: no message, nothing scheduled.\<close>

definition moved_on :: "ui_effect list \<Rightarrow> bool" where
  "moved_on es =
     (errors_shown es = [] \<and> scheduled_navigations es = [] \<and>
      (immediate_navigations es = [''/forgot-password?step=3''] \<or>
       immediate_navigations es = [''/dashboard'']))"

text \<open>One of the awaited calls threw an \<open>Error\<close> whose message is empty.\<close>

definition empty_error_thrown ::
  "session_response outcome \<Rightarrow> session_response outcome \<Rightarrow> unit outcome \<Rightarrow> bool" where
  "empty_error_thrown ss gs ia =
     (ss = Rejects (ErrorObj []) \<or> gs = Rejects (ErrorObj []) \<or> ia = Rejects (ErrorObj []))"

definition rejected :: "'a outcome \<Rightarrow> bool" where
  "rejected x = (case x of Rejects err \<Rightarrow> True | Resolves r \<Rightarrow> False)"

definition answers_error :: "session_response outcome \<Rightarrow> bool" where
  "answers_error x = (case x of Rejects err \<Rightarrow> False | Resolves r \<Rightarrow> sr_error r \<noteq> None)"

definition has_session :: "session_response outcome \<Rightarrow> bool" where
  "has_session x = (case x of Rejects err \<Rightarrow> False | Resolves r \<Rightarrow> sr_session r \<noteq> None)"

fun is_set_session :: "sdk_call \<Rightarrow> bool" where
  "is_set_session (AuthSetSession a r) = True"
| "is_set_session c = False"

definition set_session_requested :: "ui_effect list \<Rightarrow> bool" where
  "set_session_requested es = list_ex is_set_session (requests es)"

definition get_session_requested :: "ui_effect list \<Rightarrow> bool" where
  "get_session_requested es = (AuthGetSession \<in> set (requests es))"

definition initialize_dispatched :: "ui_effect list \<Rightarrow> bool" where
  "initialize_dispatched es = (DispatchInitializeAuth \<in> set es)"

text \<open>
  What every run of the auth callback does: it reports the error and redirects later, or
  (after an \<open>Error\<close> with an empty message) only redirects later, or it goes on to the
  next page; and it goes on only with a session and with no call it made having thrown
  or, for \<open>setSession\<close>, answered with an error.
\<close>

definition callback_handled ::
  "session_response outcome \<Rightarrow> session_response outcome \<Rightarrow> unit outcome \<Rightarrow>
   ui_effect list \<Rightarrow> bool" where
  "callback_handled ss gs ia es =
     ((error_then_redirect es \<or> (redirect_only es \<and> empty_error_thrown ss gs ia) \<or> moved_on es) \<and>
      (moved_on es \<longrightarrow> has_session ss \<or> has_session gs) \<and>
      (set_session_requested es \<and> (rejected ss \<or> answers_error ss) \<longrightarrow> \<not> moved_on es) \<and>
      (get_session_requested es \<and> rejected gs \<longrightarrow> \<not> moved_on es) \<and>
      (initialize_dispatched es \<and> rejected ia \<longrightarrow> \<not> moved_on es))"

subsection \<open>Sample inputs\<close>

definition sample_user :: user where
  "sample_user = \<lparr> user_id = ''u-1'', user_email = Some ''ada@example.com'' \<rparr>"

definition sample_session :: session where
  "sample_session = \<lparr> access_token = Some ''tok'', session_email = Some ''ada@example.com'' \<rparr>"

definition sample_data :: SignUpData where
  "sample_data =
     \<lparr> streetAddress = None, city = Some ''Accra'', country = Some ''Ghana'',
       postalCode = None, email = ''Ada@Example.com'', password = ''secret1'',
       firstName = ''Ada'', lastName = [], phone = Some [] \<rparr>"

definition sample_row :: users_row where
  "sample_row =
     \<lparr> col_id = ''u-1'', col_email = ''ada@example.com'', col_first_name = ''Ada'',
       col_last_name = ''L'', col_phone_number = None, col_role = ''client'',
       col_status = ''active'', col_suite_number = Some ''VC-001'', col_avatar_url = None,
       col_street_address = None, col_city = Some ''Accra'', col_country = Some ''Ghana'',
       col_postal_code = None \<rparr>"

definition sample_profile :: AuthUser where
  "sample_profile =
     \<lparr> au_id = ''u-1'', au_email = ''ada@example.com'', au_firstName = ''Ada'',
       au_lastName = ''L'', au_role = ''client'', au_phone = Some ''  '',
       au_suite_number = None, au_status = ''active'', au_avatarUrl = None,
       au_profileImage = None, au_isEmailVerified = Some True,
       au_accountStatus = Some ''active'', au_usShippingAddressId = None,
       au_streetAddress = None, au_city = None, au_country = None, au_postalCode = None \<rparr>"

definition suspended_row :: status_row where
  "suspended_row =
     \<lparr> st_status = Some ''Suspended'', st_first_name = Some ''Ada'',
       st_email = ''ada@example.com'' \<rparr>"

definition no_row :: "id_email_row query_response outcome" where
  "no_row = Resolves \<lparr> q_data = None, q_error = None \<rparr>"

definition profile_created :: "profile_result query_response outcome" where
  "profile_created =
     Resolves \<lparr> q_data = Some \<lparr> pr_success = True, pr_error = None \<rparr>, q_error = None \<rparr>"

definition profile_refused :: "profile_result query_response outcome" where
  "profile_refused =
     Resolves \<lparr> q_data = Some \<lparr> pr_success = False, pr_error = Some ''Email already registered'' \<rparr>,
                q_error = None \<rparr>"

definition user_created :: "auth_response outcome" where
  "user_created =
     Resolves \<lparr> resp_user = Some sample_user, resp_session = None, resp_error = None \<rparr>"

definition nothing_created :: "auth_response outcome" where
  "nothing_created = Resolves \<lparr> resp_user = None, resp_session = None, resp_error = None \<rparr>"

definition recovery_hash :: "(string \<times> string) list" where
  "recovery_hash =
     [(''type'', ''recovery''), (''access_token'', ''at''), (''refresh_token'', ''rt'')]"

definition recovery_hash_with_error :: "(string \<times> string) list" where
  "recovery_hash_with_error = (''error_description'', ''Link expired'') # recovery_hash"

definition session_set :: "session_response outcome" where
  "session_set = Resolves \<lparr> sr_session = Some sample_session, sr_error = None \<rparr>"

definition no_session :: "session_response outcome" where
  "no_session = Resolves \<lparr> sr_session = None, sr_error = None \<rparr>"

definition session_refused :: "session_response outcome" where
  "session_refused =
     Resolves \<lparr> sr_session = None,
                sr_error = Some \<lparr> err_message = ''expired'', err_name = ''AuthApiError'' \<rparr> \<rparr>"

definition quiet_backend :: backend where
  "quiet_backend =
     \<lparr> signInWithPassword = (\<lambda>e p. (120, user_created)),
       rpc_log_auth_event = (\<lambda>t p. (40, Resolves None)),
       rpc_update_user_last_login = (\<lambda>u. (40, Resolves None)),
       sendLoginWelcomeEmail = (\<lambda>u e. (40, Resolves ())) \<rparr>"

definition broken_backend :: backend where
  "broken_backend =
     \<lparr> signInWithPassword = (\<lambda>e p. (120, user_created)),
       rpc_log_auth_event = (\<lambda>t p. (9000, Rejects NonError)),
       rpc_update_user_last_login =
         (\<lambda>u. (0, Resolves (Some \<lparr> err_message = ''denied'', err_name = ''PostgrestError'' \<rparr>))),
       sendLoginWelcomeEmail = (\<lambda>u e. (5000, Rejects (ErrorObj ''smtp down''))) \<rparr>"

definition sample_signin :: SignInData where
  "sample_signin = \<lparr> si_email = ''ada@example.com'', si_password = ''secret1'' \<rparr>"

definition sample_passwords :: passwords where
  "sample_passwords =
     \<lparr> currentPassword = ''old'', newPassword = ''newpass1'', confirmPassword = ''newpass1'' \<rparr>"

definition wrong_password :: "change_result outcome" where
  "wrong_password =
     Resolves \<lparr> cr_error = Some ''Current password is incorrect'', cr_success = Some False \<rparr>"

section \<open>Shared lemmas\<close>

lemma cleanup_result:
  "cleanupOrphanedAuthUser em q = (False, [SelectIdEmailByEmail (toLowerCase em)])"
  by (simp add: cleanupOrphanedAuthUser_def Let_def split: outcome.splits option.splits)

lemma trim_empty: "(trim s = []) = (\<forall>c\<in>set s. is_space c)"
proof
  assume "trim s = []"
  then have e: "\<forall>c\<in>set (dropWhile is_space s). is_space c"
    by (simp add: trim_def)
  show "\<forall>c\<in>set s. is_space c"
  proof (rule ccontr)
    assume "\<not> (\<forall>c\<in>set s. is_space c)"
    then have ne: "dropWhile is_space s \<noteq> []" by simp
    then have "\<not> is_space (hd (dropWhile is_space s))" by (rule hd_dropWhile)
    moreover have "hd (dropWhile is_space s) \<in> set (dropWhile is_space s)"
      using ne by simp
    ultimately show False using e by blast
  qed
next
  assume "\<forall>c\<in>set s. is_space c"
  then have d: "dropWhile is_space s = []" by simp
  show "trim s = []" by (simp add: trim_def d)
qed

lemma hasPhone_iff: "hasPhone profile = (\<not> phone_missing profile)"
  by (auto simp: hasPhone_def phone_missing_def trim_empty list_all_iff
           split: option.splits)

lemma detached_left_behind:
  "left_behind b t (logAuthEventAsync b t ev ps) \<and>
   left_behind b t (updateLastLoginAsync b t uid) \<and>
   left_behind b t (sendLoginWelcomeEmailAsync b t uid em)"
  by (simp add: left_behind_def logAuthEventAsync_def updateLastLoginAsync_def
        sendLoginWelcomeEmailAsync_def try_await_def await_def
      split: prod.splits outcome.splits)

lemma detached_task:
  "dt_task (logAuthEventAsync b t ev ps) = LogAuthEvent ev ps \<and>
   dt_task (updateLastLoginAsync b t uid) = UpdateLastLogin uid \<and>
   dt_task (sendLoginWelcomeEmailAsync b t uid em) = SendLoginWelcomeEmail uid em"
  by (simp add: logAuthEventAsync_def updateLastLoginAsync_def
        sendLoginWelcomeEmailAsync_def split: prod.splits)

lemma opt_or_default_nonempty: "d \<noteq> [] \<Longrightarrow> opt_or_default x d \<noteq> []"
  by (cases x) auto

lemma skip_effect:
  "error_then_redirect (Do (SetCallbackType c) # es) = error_then_redirect es"
  "error_then_redirect (Do (SetStatus s) # es) = error_then_redirect es"
  "error_then_redirect (Request q # es) = error_then_redirect es"
  "error_then_redirect (DispatchInitializeAuth # es) = error_then_redirect es"
  "redirect_only (Do (SetCallbackType c) # es) = redirect_only es"
  "redirect_only (Do (SetStatus s) # es) = redirect_only es"
  "redirect_only (Request q # es) = redirect_only es"
  "redirect_only (DispatchInitializeAuth # es) = redirect_only es"
  "moved_on (Do (SetCallbackType c) # es) = moved_on es"
  "moved_on (Do (SetStatus s) # es) = moved_on es"
  "moved_on (Request q # es) = moved_on es"
  "moved_on (DispatchInitializeAuth # es) = moved_on es"
  by (simp_all add: error_then_redirect_def redirect_only_def moved_on_def)

lemma skip_request:
  "set_session_requested (Do x # es) = set_session_requested es"
  "set_session_requested (DispatchInitializeAuth # es) = set_session_requested es"
  "set_session_requested (Request q # es) = (is_set_session q \<or> set_session_requested es)"
  "get_session_requested (Do x # es) = get_session_requested es"
  "get_session_requested (DispatchInitializeAuth # es) = get_session_requested es"
  "get_session_requested (Request q # es) = (q = AuthGetSession \<or> get_session_requested es)"
  "initialize_dispatched (Do x # es) = initialize_dispatched es"
  "initialize_dispatched (Request q # es) = initialize_dispatched es"
  "initialize_dispatched (DispatchInitializeAuth # es) = True"
  "set_session_requested (SetTimeout d x # es) = set_session_requested es"
  "get_session_requested (SetTimeout d x # es) = get_session_requested es"
  "initialize_dispatched (SetTimeout d x # es) = initialize_dispatched es"
  "set_session_requested [] = False"
  "get_session_requested [] = False"
  "initialize_dispatched [] = False"
  by (auto simp: set_session_requested_def get_session_requested_def initialize_dispatched_def)

lemma skip_wait:
  "error_then_redirect (Wait n # es) = error_then_redirect es"
  "redirect_only (Wait n # es) = redirect_only es"
  "moved_on (Wait n # es) = moved_on es"
  "set_session_requested (Wait n # es) = set_session_requested es"
  "get_session_requested (Wait n # es) = get_session_requested es"
  "initialize_dispatched (Wait n # es) = initialize_dispatched es"
  by (auto simp: error_then_redirect_def redirect_only_def moved_on_def
        set_session_requested_def get_session_requested_def initialize_dispatched_def)

lemma error_pair_facts:
  "error_then_redirect [Do (SetError (Some m)), SetTimeout d (Navigate p rp f)] =
     (m \<noteq> [] \<and> (d = 3000 \<or> (d = 2000 \<and> m = ''No session found. Redirecting to login...'')))"
  "redirect_only [Do (SetError (Some m)), SetTimeout d (Navigate p rp f)] =
     (m = [] \<and> d = 3000 \<and> p = ''/login'')"
  "moved_on [Do (SetError (Some m)), SetTimeout d (Navigate p rp f)] = False"
  "set_session_requested [Do (SetError (Some m)), SetTimeout d (Navigate p rp f)] = False"
  "get_session_requested [Do (SetError (Some m)), SetTimeout d (Navigate p rp f)] = False"
  "initialize_dispatched [Do (SetError (Some m)), SetTimeout d (Navigate p rp f)] = False"
  by (auto simp: error_then_redirect_def redirect_only_def moved_on_def
        set_session_requested_def get_session_requested_def initialize_dispatched_def)

lemma navigate_facts:
  "error_then_redirect [Do (Navigate p rp f)] = False"
  "redirect_only [Do (Navigate p rp f)] = False"
  "moved_on [Do (Navigate p rp f)] = (p = ''/forgot-password?step=3'' \<or> p = ''/dashboard'')"
  "set_session_requested [Do (Navigate p rp f)] = False"
  "get_session_requested [Do (Navigate p rp f)] = False"
  "initialize_dispatched [Do (Navigate p rp f)] = False"
  by (auto simp: error_then_redirect_def redirect_only_def moved_on_def
        set_session_requested_def get_session_requested_def initialize_dispatched_def)

lemma catch_facts:
  "error_then_redirect (callback_catch err) = (err \<noteq> ErrorObj [])"
  "redirect_only (callback_catch err) = (err = ErrorObj [])"
  "moved_on (callback_catch err) = False"
  "set_session_requested (callback_catch err) = False"
  "get_session_requested (callback_catch err) = False"
  "initialize_dispatched (callback_catch err) = False"
  by (cases err; simp add: callback_catch_def error_pair_facts)+

lemma step_facts:
  "error_then_redirect to_password_step = False"
  "redirect_only to_password_step = False"
  "moved_on to_password_step = True"
  "set_session_requested to_password_step = False"
  "get_session_requested to_password_step = False"
  "initialize_dispatched to_password_step = False"
  "error_then_redirect recovery_failed = True"
  "redirect_only recovery_failed = False"
  "moved_on recovery_failed = False"
  "set_session_requested recovery_failed = False"
  "get_session_requested recovery_failed = False"
  "initialize_dispatched recovery_failed = False"
  by (simp_all add: to_password_step_def recovery_failed_def expired_link_def
        skip_effect skip_request skip_wait error_pair_facts navigate_facts)

lemma recovery_existing_facts:
  "moved_on (recovery_existing gs) = has_session gs"
  "redirect_only (recovery_existing gs) = (gs = Rejects (ErrorObj []))"
  "error_then_redirect (recovery_existing gs) =
     (\<not> has_session gs \<and> gs \<noteq> Rejects (ErrorObj []))"
  "set_session_requested (recovery_existing gs) = False"
  "get_session_requested (recovery_existing gs) = True"
  "initialize_dispatched (recovery_existing gs) = False"
  by (auto simp: recovery_existing_def skip_effect skip_request catch_facts step_facts
        has_session_def split: outcome.splits option.splits)

lemma oauth_finish_facts:
  "moved_on (oauth_finish sess e ia) = (sess \<noteq> None \<and> e = None \<and> \<not> rejected ia)"
  "redirect_only (oauth_finish sess e ia) =
     (sess \<noteq> None \<and> e = None \<and> ia = Rejects (ErrorObj []))"
  "error_then_redirect (oauth_finish sess e ia) =
     (sess = None \<or> e \<noteq> None \<or> (rejected ia \<and> ia \<noteq> Rejects (ErrorObj [])))"
  "set_session_requested (oauth_finish sess e ia) = False"
  "get_session_requested (oauth_finish sess e ia) = False"
  by (auto simp: oauth_finish_def skip_effect skip_request skip_wait catch_facts
        error_pair_facts navigate_facts rejected_def
      split: outcome.splits option.splits)

lemma oauth_finish_dispatch:
  "initialize_dispatched (oauth_finish sess e ia) \<and> rejected ia \<longrightarrow>
   \<not> moved_on (oauth_finish sess e ia)"
  by (simp add: oauth_finish_facts)

lemma recovery_flow_handled: "callback_handled ss gs ia (recovery_flow a r ss gs)"
  by (auto simp: callback_handled_def recovery_flow_def skip_effect skip_request catch_facts
        step_facts recovery_existing_facts empty_error_thrown_def has_session_def
        rejected_def answers_error_def
      split: outcome.splits option.splits prod.splits)

lemma oauth_flow_handled: "callback_handled ss gs ia (oauth_flow a r ss gs ia)"
  using oauth_finish_dispatch
  by (auto simp: callback_handled_def oauth_flow_def skip_effect skip_request catch_facts
        oauth_finish_facts empty_error_thrown_def has_session_def
        rejected_def answers_error_def
      split: outcome.splits option.splits prod.splits)

lemma handleAuthCallback_handled:
  "callback_handled ss gs ia (handleAuthCallback ps ss gs ia) \<and>
   (moved_on (handleAuthCallback ps ss gs ia) \<longrightarrow>
      \<not> truthy (params_get ps ''error_description''))"
proof (cases "truthy (params_get ps ''error_description'')")
  case True
  then obtain m where m: "params_get ps ''error_description'' = Some m" "m \<noteq> []"
    by (cases "params_get ps ''error_description''") auto
  then show ?thesis
    by (simp add: handleAuthCallback_def Let_def callback_handled_def error_pair_facts)
next
  case False
  then show ?thesis
    using recovery_flow_handled oauth_flow_handled
    by (simp add: handleAuthCallback_def Let_def)
qed

lemma handleSubmit_never_navigates:
  "scheduled_navigations (handleSubmit usr pw resp) = [] \<and>
   immediate_navigations (handleSubmit usr pw resp) = []"
  by (simp add: handleSubmit_def split: outcome.splits)

lemma handleSubmit_errors:
  "(\<not> (submit_valid usr pw \<and> change_succeeded resp) \<longrightarrow>
      (\<exists>m. errors_shown (handleSubmit usr pw resp) = [m])) \<and>
   (submit_valid usr pw \<and> change_succeeded resp \<longrightarrow>
      errors_shown (handleSubmit usr pw resp) = [])"
  by (auto simp: handleSubmit_def submit_valid_def change_succeeded_def
        opt_or_default_nonempty split: outcome.splits)

section \<open>Sign-up\<close>

text \<open>
  C1, as the specification states it, fails: when the auth sign-up answers with neither
  a user nor an error, \<open>signUp\<close> returns user \<open>null\<close> together with error \<open>null\<close>,
  because the first guard hands the SDK's own error back.
\<close>

theorem signUp_null_error_counterexample:
  "\<not> signUp_succeeds nothing_created profile_created \<and>
   fst (signUp sample_data no_row nothing_created profile_created) = (None, None)"
  by (simp add: signUp_def signUp_succeeds_def auth_user_created_def nothing_created_def
        cleanup_result Let_def)

text \<open>
  C1, amended: \<open>signUp\<close> returns the created user with error \<open>null\<close> exactly when the
  auth sign-up answers with a user and no error and the profile-creation call answers
  with no error and a result whose \<open>success\<close> is true. In every other case the user is
  \<open>null\<close>, and the error is non-null except when the auth sign-up answered with neither
  a user nor an error, where the SDK's \<open>null\<close> error is handed back.
\<close>

theorem signUp_result:
  "(signUp_succeeds su rpc \<longrightarrow>
      fst (signUp d q su rpc) = (auth_user_created su, None) \<and>
      auth_user_created su \<noteq> None) \<and>
   (\<not> signUp_succeeds su rpc \<longrightarrow>
      fst (fst (signUp d q su rpc)) = None \<and>
      ((snd (fst (signUp d q su rpc)) = None) = sdk_silent su))"
  by (auto simp: cleanup_result signUp_def signUp_profile_def rpc_fails_def
        auth_user_created_def signUp_succeeds_def sdk_silent_def Let_def
      split: outcome.splits option.splits)

theorem signUp_result_witness:
  "signUp_succeeds user_created profile_created \<and>
   fst (signUp sample_data no_row user_created profile_created) = (Some sample_user, None) \<and>
   \<not> signUp_succeeds user_created profile_refused \<and>
   fst (fst (signUp sample_data no_row user_created profile_refused)) = None \<and>
   snd (fst (signUp sample_data no_row user_created profile_refused)) \<noteq> None"
proof -
  have ok: "signUp_succeeds user_created profile_created"
    by (simp add: signUp_succeeds_def auth_user_created_def rpc_fails_def user_created_def
          profile_created_def)
  have bad: "\<not> signUp_succeeds user_created profile_refused"
    by (simp add: signUp_succeeds_def auth_user_created_def rpc_fails_def user_created_def
          profile_refused_def)
  have created: "auth_user_created user_created = Some sample_user"
    by (simp add: auth_user_created_def user_created_def)
  have loud: "\<not> sdk_silent user_created"
    by (simp add: sdk_silent_def user_created_def)
  show ?thesis
    using ok bad created loud
      signUp_result [where su = user_created and rpc = profile_created
                       and d = sample_data and q = no_row]
      signUp_result [where su = user_created and rpc = profile_refused
                       and d = sample_data and q = no_row]
    by simp
qed

text \<open>
  C4: the orphan check returns false on every input and sends nothing but its one
  query; and when the profile-creation call fails after the auth user was created,
  \<open>signUp\<close> returns user \<open>null\<close> with an error, having sent the query, the auth sign-up
  and the profile-creation call once each and nothing else (no second attempt, no
  request that removes the created user).
\<close>

theorem signUp_no_retry_no_recovery:
  "fst (cleanupOrphanedAuthUser em q') = False \<and>
   snd (cleanupOrphanedAuthUser em q') = [SelectIdEmailByEmail (toLowerCase em)] \<and>
   (auth_user_created su = Some u \<and> rpc_fails rpc \<longrightarrow>
      fst (fst (signUp d q su rpc)) = None \<and>
      snd (fst (signUp d q su rpc)) \<noteq> None \<and>
      snd (signUp d q su rpc) =
        [SelectIdEmailByEmail (toLowerCase (email d)), AuthSignUp (signupPayload d),
         RpcCreateUserProfileSecure (rpcPayload d u)])"
  by (auto simp: cleanup_result signUp_def signUp_profile_def rpc_fails_def
        auth_user_created_def Let_def
      split: outcome.splits option.splits)

theorem signUp_no_retry_no_recovery_witness:
  "auth_user_created user_created = Some sample_user \<and> rpc_fails profile_refused \<and>
   fst (fst (signUp sample_data no_row user_created profile_refused)) = None \<and>
   snd (fst (signUp sample_data no_row user_created profile_refused)) \<noteq> None \<and>
   snd (signUp sample_data no_row user_created profile_refused) =
     [SelectIdEmailByEmail (toLowerCase (email sample_data)), AuthSignUp (signupPayload sample_data),
      RpcCreateUserProfileSecure (rpcPayload sample_data sample_user)]"
proof -
  have created: "auth_user_created user_created = Some sample_user"
    by (simp add: auth_user_created_def user_created_def)
  have fails: "rpc_fails profile_refused"
    by (simp add: rpc_fails_def profile_refused_def)
  show ?thesis
    using created fails
      signUp_no_retry_no_recovery [where su = user_created and u = sample_user
        and rpc = profile_refused and d = sample_data and q = no_row]
    by simp
qed

section \<open>Sign-in\<close>

text \<open>
  C3: two runs of \<open>signIn\<close> on backends that answer the sign-in request alike return
  the same \<open>{ user, error }\<close> at the same time and start the same background calls,
  whatever the three background requests do on either backend (succeed, fail or throw,
  soon or late). \<open>signIn\<close> returns as soon as the sign-in request has answered; every
  background call is started at that time and settles only when its own request has
  answered, never before the return, and then as fulfilled. After a successful sign-in
  the background calls are the auth-event log, the last-login update and the welcome
  email, in this order.
\<close>

theorem signIn_independent_of_background:
  "(signInWithPassword b1 (si_email d) (si_password d) =
    signInWithPassword b2 (si_email d) (si_password d) \<longrightarrow>
      returned (signIn b1 now d ua) = returned (signIn b2 now d ua) \<and>
      returned_at (signIn b1 now d ua) = returned_at (signIn b2 now d ua) \<and>
      map dt_task (background (signIn b1 now d ua)) =
        map dt_task (background (signIn b2 now d ua))) \<and>
   returned_at (signIn b now d ua) =
     now + fst (signInWithPassword b (si_email d) (si_password d)) \<and>
   list_all (left_behind b (returned_at (signIn b now d ua))) (background (signIn b now d ua)) \<and>
   (snd (signInWithPassword b (si_email d) (si_password d)) = Resolves a \<and>
    resp_error a = None \<and> resp_user a = Some u \<longrightarrow>
      returned (signIn b now d ua) = (Some u, None) \<and>
      map dt_task (background (signIn b now d ua)) =
        [LogAuthEvent ''login_success'' (success_params u (si_email d) ua (resp_session a)),
         UpdateLastLogin (user_id u),
         SendLoginWelcomeEmail (user_id u) (si_email d)])"
  by (auto simp: signIn_def await_def detached_left_behind detached_task
           split: prod.splits outcome.splits option.splits)

theorem signIn_independent_of_background_witness:
  "signInWithPassword quiet_backend (si_email sample_signin) (si_password sample_signin) =
   signInWithPassword broken_backend (si_email sample_signin) (si_password sample_signin) \<and>
   rpc_log_auth_event quiet_backend \<noteq> rpc_log_auth_event broken_backend \<and>
   returned (signIn quiet_backend 1000 sample_signin ''UA'') =
     returned (signIn broken_backend 1000 sample_signin ''UA'') \<and>
   returned_at (signIn broken_backend 1000 sample_signin ''UA'') = 1120 \<and>
   returned (signIn broken_backend 1000 sample_signin ''UA'') = (Some sample_user, None)"
proof -
  have same:
    "signInWithPassword quiet_backend (si_email sample_signin) (si_password sample_signin) =
     signInWithPassword broken_backend (si_email sample_signin) (si_password sample_signin)"
    by (simp add: quiet_backend_def broken_backend_def)
  have differ: "rpc_log_auth_event quiet_backend \<noteq> rpc_log_auth_event broken_backend"
    by (simp add: quiet_backend_def broken_backend_def fun_eq_iff)
  have reply:
    "signInWithPassword broken_backend (si_email sample_signin) (si_password sample_signin) =
       (120, Resolves \<lparr> resp_user = Some sample_user, resp_session = None, resp_error = None \<rparr>)"
    by (simp add: broken_backend_def user_created_def)
  show ?thesis
    using same differ reply
      signIn_independent_of_background
        [where ?b1.0 = quiet_backend and ?b2.0 = broken_backend and d = sample_signin
           and now = 1000 and ua = "''UA''" and b = broken_backend
           and a = "\<lparr> resp_user = Some sample_user, resp_session = None, resp_error = None \<rparr>"
           and u = sample_user]
    by simp
qed

section \<open>Profile mirror\<close>

text \<open>
  C8, as the specification states it, fails: the returned object is not the plain mirror
  of the row, since \<open>isEmailVerified\<close> is set to the constant \<open>true\<close> (and
  \<open>profileImage\<close>, \<open>accountStatus\<close> repeat two columns), which no column provides.
\<close>

theorem getUserProfile_invents_field_counterexample:
  "fst (getUserProfile ''u-1'' (Resolves \<lparr> q_data = Some sample_row, q_error = None \<rparr>))
     \<noteq> Some (passthrough_mirror sample_row) \<and>
   map_option au_isEmailVerified
     (fst (getUserProfile ''u-1'' (Resolves \<lparr> q_data = Some sample_row, q_error = None \<rparr>)))
     = Some (Some True)"
  by (simp add: getUserProfile_def passthrough_mirror_def)

text \<open>
  C8, amended: for every row fetched without error, each of the thirteen fields equals
  its column; besides them \<open>profileImage\<close> repeats \<open>avatar_url\<close>, \<open>accountStatus\<close>
  repeats \<open>status\<close>, \<open>usShippingAddressId\<close> is undefined and \<open>isEmailVerified\<close> is the
  constant \<open>true\<close>, which is not read from the row.
\<close>

theorem getUserProfile_fields:
  "q_error r = None \<and> q_data r = Some data \<longrightarrow>
   (\<exists>u. fst (getUserProfile userId (Resolves r)) = Some u \<and>
        au_id u = col_id data \<and> au_email u = col_email data \<and>
        au_firstName u = col_first_name data \<and> au_lastName u = col_last_name data \<and>
        au_role u = col_role data \<and> au_phone u = col_phone_number data \<and>
        au_status u = col_status data \<and> au_suite_number u = col_suite_number data \<and>
        au_streetAddress u = col_street_address data \<and> au_city u = col_city data \<and>
        au_country u = col_country data \<and> au_postalCode u = col_postal_code data \<and>
        au_avatarUrl u = col_avatar_url data \<and>
        au_profileImage u = col_avatar_url data \<and>
        au_accountStatus u = Some (col_status data) \<and>
        au_usShippingAddressId u = None \<and>
        au_isEmailVerified u = Some True)"
  by (simp add: getUserProfile_def)

theorem getUserProfile_fields_witness:
  "\<exists>u. fst (getUserProfile ''u-1'' (Resolves \<lparr> q_data = Some sample_row, q_error = None \<rparr>))
          = Some u \<and>
       au_id u = ''u-1'' \<and> au_status u = ''active'' \<and> au_city u = Some ''Accra'' \<and>
       au_isEmailVerified u = Some True"
proof -
  have h: "q_error \<lparr> q_data = Some sample_row, q_error = None \<rparr> = None \<and>
           q_data \<lparr> q_data = Some sample_row, q_error = None \<rparr> = Some sample_row"
    by simp
  have cols: "col_id sample_row = ''u-1'' \<and> col_status sample_row = ''active'' \<and>
              col_city sample_row = Some ''Accra''"
    by (simp add: sample_row_def)
  from getUserProfile_fields
         [where r = "\<lparr> q_data = Some sample_row, q_error = None \<rparr>" and data = sample_row
            and userId = "''u-1''"] h
  obtain u where
    "fst (getUserProfile ''u-1'' (Resolves \<lparr> q_data = Some sample_row, q_error = None \<rparr>)) = Some u"
    "au_id u = col_id sample_row" "au_status u = col_status sample_row"
    "au_city u = col_city sample_row" "au_isEmailVerified u = Some True"
    by blast
  with cols show ?thesis by auto
qed

section \<open>Account status\<close>

text \<open>
  C9: when the status query throws, answers with an error or finds no row, the result
  is \<open>canLogin\<close> true with status \<open>null\<close>; \<open>canLogin\<close> is false only when a row was
  found whose lowercased status is not \<open>active\<close>, and then the message is the one the
  status selects; a found row whose lowercased status is \<open>active\<close> gives \<open>canLogin\<close>
  true with that status.
\<close>

theorem checkAccountStatus_fails_open:
  "(found_row q = None \<longrightarrow>
      fst (checkAccountStatus em q) =
        \<lparr> as_status = None, canLogin = True, as_message = None, as_firstName = None \<rparr>) \<and>
   (\<not> canLogin (fst (checkAccountStatus em q)) \<longrightarrow>
      (\<exists>row. found_row q = Some row \<and> lowered_status row \<noteq> Some ''active'' \<and>
         as_message (fst (checkAccountStatus em q)) =
           Some (status_message (lowered_status row) (st_first_name row)))) \<and>
   (found_row q = Some row \<and> lowered_status row \<noteq> Some ''active'' \<longrightarrow>
      \<not> canLogin (fst (checkAccountStatus em q))) \<and>
   (found_row q = Some row \<and> lowered_status row = Some ''active'' \<longrightarrow>
      canLogin (fst (checkAccountStatus em q)) \<and>
      as_status (fst (checkAccountStatus em q)) = Some ''active'')"
  by (auto simp: checkAccountStatus_def found_row_def lowered_status_def proceed_def Let_def
           split: outcome.splits option.splits)

theorem checkAccountStatus_fails_open_witness:
  "found_row (Rejects NonError) = None \<and>
   canLogin (fst (checkAccountStatus ''ada@example.com'' (Rejects NonError))) \<and>
   found_row (Resolves \<lparr> q_data = Some suspended_row, q_error = None \<rparr>) = Some suspended_row \<and>
   lowered_status suspended_row \<noteq> Some ''active'' \<and>
   \<not> canLogin (fst (checkAccountStatus ''ada@example.com''
                      (Resolves \<lparr> q_data = Some suspended_row, q_error = None \<rparr>)))"
proof -
  have none: "found_row (Rejects NonError) = None"
    by (simp add: found_row_def)
  have found:
    "found_row (Resolves \<lparr> q_data = Some suspended_row, q_error = None \<rparr>) = Some suspended_row"
    by (simp add: found_row_def)
  have low: "lowered_status suspended_row = Some ''suspended''"
    by code_simp
  have inactive: "lowered_status suspended_row \<noteq> Some ''active''"
    by (simp add: low)
  show ?thesis
    using none found inactive
      checkAccountStatus_fails_open
        [where q = "Rejects NonError" and em = "''ada@example.com''" and row = suspended_row]
      checkAccountStatus_fails_open
        [where q = "Resolves \<lparr> q_data = Some suspended_row, q_error = None \<rparr>"
           and em = "''ada@example.com''" and row = suspended_row]
    by simp
qed

section \<open>Password change\<close>

text \<open>
  C10: when \<open>getUser\<close> answers with no user or with a user without an email, the result
  is failure with \<open>No authenticated user found\<close> and only \<open>getUser\<close> was sent; when the
  verification sign-in answers with an error, the result is failure with
  \<open>Current password is incorrect\<close> and the update was not sent; the update is sent
  only after the sign-in for the user's email answered without error, and it follows
  that sign-in; without a verified current password the result is always a failure
  with an error.
\<close>

theorem changePassword_verifies_first:
  "(gu = Resolves uo \<and> authenticated_email gu = None \<longrightarrow>
      changePassword cur new gu si up =
        (\<lparr> cr_error = Some ''No authenticated user found'', cr_success = Some False \<rparr>,
         [AuthGetUser])) \<and>
   (authenticated_email gu = Some e \<and> signin_error si \<longrightarrow>
      changePassword cur new gu si up =
        (\<lparr> cr_error = Some ''Current password is incorrect'', cr_success = Some False \<rparr>,
         [AuthGetUser, AuthSignInWithPassword e cur])) \<and>
   (AuthUpdateUserPassword p \<in> set (snd (changePassword cur new gu si up)) \<longrightarrow>
      (\<exists>e'. verified_email gu si = Some e' \<and>
           snd (changePassword cur new gu si up) =
             [AuthGetUser, AuthSignInWithPassword e' cur, AuthUpdateUserPassword new])) \<and>
   (verified_email gu si = None \<longrightarrow>
      cr_success (fst (changePassword cur new gu si up)) = Some False \<and>
      cr_error (fst (changePassword cur new gu si up)) \<noteq> None \<and>
      AuthUpdateUserPassword p \<notin> set (snd (changePassword cur new gu si up)))"
  by (auto simp: changePassword_def authenticated_email_def verified_email_def signin_error_def
        change_failed_def Let_def split: outcome.splits option.splits if_splits)

theorem changePassword_verifies_first_witness:
  "authenticated_email (Resolves (Some sample_user)) = Some ''ada@example.com'' \<and>
   signin_error
     (Resolves \<lparr> resp_user = None, resp_session = None,
                 resp_error = Some \<lparr> err_message = ''Invalid login credentials'',
                                      err_name = ''AuthApiError'' \<rparr> \<rparr>) \<and>
   changePassword ''old'' ''newpass1'' (Resolves (Some sample_user))
     (Resolves \<lparr> resp_user = None, resp_session = None,
                 resp_error = Some \<lparr> err_message = ''Invalid login credentials'',
                                      err_name = ''AuthApiError'' \<rparr> \<rparr>)
     user_created =
     (\<lparr> cr_error = Some ''Current password is incorrect'', cr_success = Some False \<rparr>,
      [AuthGetUser, AuthSignInWithPassword ''ada@example.com'' ''old''])"
proof -
  have em: "authenticated_email (Resolves (Some sample_user)) = Some ''ada@example.com''"
    by (simp add: authenticated_email_def sample_user_def)
  have bad:
    "signin_error
       (Resolves \<lparr> resp_user = None, resp_session = None,
                   resp_error = Some \<lparr> err_message = ''Invalid login credentials'',
                                        err_name = ''AuthApiError'' \<rparr> \<rparr>)"
    by (simp add: signin_error_def)
  show ?thesis
    using em bad
      changePassword_verifies_first
        [where gu = "Resolves (Some sample_user)" and e = "''ada@example.com''"
           and si = "Resolves \<lparr> resp_user = None, resp_session = None,
                                resp_error = Some \<lparr> err_message = ''Invalid login credentials'',
                                                     err_name = ''AuthApiError'' \<rparr> \<rparr>"
           and cur = "''old''" and new = "''newpass1''" and up = user_created]
    by simp
qed

section \<open>Auth callback and settings form\<close>

text \<open>
  C5, as the specification states it, fails: a hash that carries \<open>type=recovery\<close> and
  both tokens but also a non-empty \<open>error_description\<close> is stopped by the first guard;
  \<open>setSession\<close> is not called, the description is shown and the redirect goes to
  \<open>/login\<close>.
\<close>

theorem recovery_error_description_counterexample:
  "params_get recovery_hash_with_error ''type'' = Some ''recovery'' \<and>
   params_get recovery_hash_with_error ''access_token'' = Some ''at'' \<and>
   params_get recovery_hash_with_error ''refresh_token'' = Some ''rt'' \<and>
   requests (handleAuthCallback recovery_hash_with_error session_set session_set (Resolves ()))
     = [] \<and>
   handleAuthCallback recovery_hash_with_error session_set session_set (Resolves ()) =
     [Do (SetError (Some ''Link expired'')), SetTimeout 3000 (Navigate ''/login'' False None)]"
  by (simp add: handleAuthCallback_def params_get_def recovery_hash_with_error_def
        recovery_hash_def Let_def)

text \<open>
  C5, amended: for every hash with no (or an empty) \<open>error_description\<close>, whose
  \<open>type\<close> is \<open>recovery\<close> and whose \<open>access_token\<close> and \<open>refresh_token\<close> are both
  non-empty, the handler calls \<open>setSession\<close> with the two tokens; when that answers
  without error and with a session it waits 500 ms and navigates to
  \<open>/forgot-password?step=3\<close>; when it answers with an error it shows the
  expired-or-invalid-link message and navigates to \<open>/forgot-password\<close> after 3000 ms.
\<close>

theorem recovery_token_exchange:
  "\<not> truthy (params_get ps ''error_description'') \<and>
   params_get ps ''type'' = Some ''recovery'' \<and>
   params_get ps ''access_token'' = Some a \<and> a \<noteq> [] \<and>
   params_get ps ''refresh_token'' = Some r \<and> r \<noteq> [] \<longrightarrow>
   take 3 (handleAuthCallback ps ss gs ia) =
     [Do (SetCallbackType Recovery), Do (SetStatus ''Processing password reset...''),
      Request (AuthSetSession a r)] \<and>
   (ss = Resolves d \<and> sr_error d = None \<and> sr_session d = Some s \<longrightarrow>
      drop 3 (handleAuthCallback ps ss gs ia) =
        [Do (SetStatus ''Redirecting to password reset...''), Wait 500,
         Do (Navigate ''/forgot-password?step=3'' True None)]) \<and>
   (ss = Resolves d \<and> sr_error d = Some e \<longrightarrow>
      drop 3 (handleAuthCallback ps ss gs ia) =
        [Do (SetError
               (Some ''Password reset link has expired or is invalid. Please request a new one.'')),
         SetTimeout 3000 (Navigate ''/forgot-password'' False None)])"
  by (auto simp: handleAuthCallback_def recovery_flow_def to_password_step_def
        recovery_failed_def expired_link_def Let_def)

theorem recovery_token_exchange_witness:
  "\<not> truthy (params_get recovery_hash ''error_description'') \<and>
   params_get recovery_hash ''type'' = Some ''recovery'' \<and>
   params_get recovery_hash ''access_token'' = Some ''at'' \<and>
   params_get recovery_hash ''refresh_token'' = Some ''rt'' \<and>
   take 3 (handleAuthCallback recovery_hash session_set no_session (Resolves ())) =
     [Do (SetCallbackType Recovery), Do (SetStatus ''Processing password reset...''),
      Request (AuthSetSession ''at'' ''rt'')] \<and>
   drop 3 (handleAuthCallback recovery_hash session_set no_session (Resolves ())) =
     [Do (SetStatus ''Redirecting to password reset...''), Wait 500,
      Do (Navigate ''/forgot-password?step=3'' True None)]"
proof -
  have h: "\<not> truthy (params_get recovery_hash ''error_description'') \<and>
           params_get recovery_hash ''type'' = Some ''recovery'' \<and>
           params_get recovery_hash ''access_token'' = Some ''at'' \<and>
           params_get recovery_hash ''refresh_token'' = Some ''rt''"
    by (simp add: params_get_def recovery_hash_def)
  have s: "session_set = Resolves \<lparr> sr_session = Some sample_session, sr_error = None \<rparr>"
    by (simp add: session_set_def)
  show ?thesis
    using h s
      recovery_token_exchange
        [where ps = recovery_hash and a = "''at''" and r = "''rt''" and ss = session_set
           and d = "\<lparr> sr_session = Some sample_session, sr_error = None \<rparr>"
           and s = sample_session and gs = no_session and ia = "Resolves ()"]
    by simp
qed

text \<open>
  C2, as the specification states it, fails: an error branch of the settings form shows
  its message and schedules no navigation at all; the auth callback does not use one
  delay (2000 ms when no session is found, 3000 ms elsewhere); and when the auth
  callback catches an \<open>Error\<close> whose message is empty it sets the empty string, which
  the page does not render.
\<close>

theorem uniform_error_handling_counterexample:
  "errors_shown (handleSubmit (Some sample_user) sample_passwords wrong_password) =
     [''Current password is incorrect''] \<and>
   scheduled_navigations (handleSubmit (Some sample_user) sample_passwords wrong_password) = [] \<and>
   immediate_navigations (handleSubmit (Some sample_user) sample_passwords wrong_password) = [] \<and>
   scheduled_navigations (handleAuthCallback [] no_session no_session (Resolves ())) =
     [(2000, ''/login'')] \<and>
   scheduled_navigations (handleAuthCallback [] no_session (Rejects NonError) (Resolves ())) =
     [(3000, ''/login'')] \<and>
   errors_shown (handleAuthCallback [] no_session (Rejects (ErrorObj [])) (Resolves ())) = [] \<and>
   scheduled_navigations (handleAuthCallback [] no_session (Rejects (ErrorObj [])) (Resolves ())) =
     [(3000, ''/login'')]"
  by code_simp

text \<open>
  C2, amended: every run of the auth callback either goes on to the next page, or shows
  exactly one error message and schedules exactly one navigation, after 3000 ms, or
  after 2000 ms in the branch whose message is that no session was found; the one
  exception is a caught \<open>Error\<close> with an empty message, where the navigation to
  \<open>/login\<close> is scheduled after 3000 ms and no message is visible. The run goes on only
  when the URL carries no error description and a session was obtained, never when a
  call it made threw or \<open>setSession\<close> answered with an error. The settings form never
  navigates, at once or later: each of its runs that does not end in a successful
  change shows exactly one error message, and a successful change shows none.
\<close>

theorem error_handling_by_component:
  "(error_then_redirect (handleAuthCallback ps ss gs ia) \<or>
    (redirect_only (handleAuthCallback ps ss gs ia) \<and> empty_error_thrown ss gs ia) \<or>
    moved_on (handleAuthCallback ps ss gs ia)) \<and>
   (moved_on (handleAuthCallback ps ss gs ia) \<longrightarrow>
      \<not> truthy (params_get ps ''error_description'') \<and> (has_session ss \<or> has_session gs)) \<and>
   (set_session_requested (handleAuthCallback ps ss gs ia) \<and> (rejected ss \<or> answers_error ss) \<longrightarrow>
      \<not> moved_on (handleAuthCallback ps ss gs ia)) \<and>
   (get_session_requested (handleAuthCallback ps ss gs ia) \<and> rejected gs \<longrightarrow>
      \<not> moved_on (handleAuthCallback ps ss gs ia)) \<and>
   (initialize_dispatched (handleAuthCallback ps ss gs ia) \<and> rejected ia \<longrightarrow>
      \<not> moved_on (handleAuthCallback ps ss gs ia)) \<and>
   scheduled_navigations (handleSubmit usr pw resp) = [] \<and>
   immediate_navigations (handleSubmit usr pw resp) = [] \<and>
   (\<not> (submit_valid usr pw \<and> change_succeeded resp) \<longrightarrow>
      (\<exists>m. errors_shown (handleSubmit usr pw resp) = [m])) \<and>
   (submit_valid usr pw \<and> change_succeeded resp \<longrightarrow>
      errors_shown (handleSubmit usr pw resp) = [])"
  using handleAuthCallback_handled [of ss gs ia ps] handleSubmit_never_navigates [of usr pw resp]
    handleSubmit_errors [of usr pw resp]
  unfolding callback_handled_def
  by blast

theorem error_handling_by_component_witness:
  "set_session_requested (handleAuthCallback recovery_hash session_refused no_session (Resolves ())) \<and>
   answers_error session_refused \<and>
   \<not> moved_on (handleAuthCallback recovery_hash session_refused no_session (Resolves ())) \<and>
   error_then_redirect (handleAuthCallback recovery_hash session_refused no_session (Resolves ())) \<and>
   moved_on (handleAuthCallback recovery_hash session_set no_session (Resolves ())) \<and>
   (has_session session_set \<or> has_session no_session) \<and>
   get_session_requested (handleAuthCallback [] no_session (Rejects NonError) (Resolves ())) \<and>
   rejected (Rejects NonError :: session_response outcome) \<and>
   error_then_redirect (handleAuthCallback [] no_session (Rejects NonError) (Resolves ())) \<and>
   initialize_dispatched
     (handleAuthCallback [] no_session session_set (Rejects (ErrorObj ''offline''))) \<and>
   rejected (Rejects (ErrorObj ''offline'') :: unit outcome) \<and>
   error_then_redirect
     (handleAuthCallback [] no_session session_set (Rejects (ErrorObj ''offline''))) \<and>
   \<not> (submit_valid (Some sample_user) sample_passwords \<and> change_succeeded wrong_password) \<and>
   (\<exists>m. errors_shown (handleSubmit (Some sample_user) sample_passwords wrong_password) = [m])"
proof -
  note a = error_handling_by_component
             [where ps = recovery_hash and ss = session_refused and gs = no_session
                and ia = "Resolves ()" and usr = "Some sample_user" and pw = sample_passwords
                and resp = wrong_password]
  note b = error_handling_by_component
             [where ps = recovery_hash and ss = session_set and gs = no_session
                and ia = "Resolves ()" and usr = "Some sample_user" and pw = sample_passwords
                and resp = wrong_password]
  note c = error_handling_by_component
             [where ps = "[]" and ss = no_session and gs = "Rejects NonError"
                and ia = "Resolves ()" and usr = "Some sample_user" and pw = sample_passwords
                and resp = wrong_password]
  note d = error_handling_by_component
             [where ps = "[]" and ss = no_session and gs = session_set
                and ia = "Rejects (ErrorObj ''offline'')" and usr = "Some sample_user"
                and pw = sample_passwords and resp = wrong_password]
  have r1: "set_session_requested
              (handleAuthCallback recovery_hash session_refused no_session (Resolves ()))"
    by code_simp
  have r2: "answers_error session_refused"
    by (simp add: answers_error_def session_refused_def)
  have e1: "\<not> empty_error_thrown session_refused no_session (Resolves ())"
    by (simp add: empty_error_thrown_def session_refused_def no_session_def)
  have n1: "\<not> moved_on (handleAuthCallback recovery_hash session_refused no_session (Resolves ()))"
    using a r1 r2 by simp
  have x1: "error_then_redirect
              (handleAuthCallback recovery_hash session_refused no_session (Resolves ()))"
    using a n1 e1 by simp
  have m1: "moved_on (handleAuthCallback recovery_hash session_set no_session (Resolves ()))"
    by code_simp
  have h1: "has_session session_set \<or> has_session no_session"
    using b m1 by simp
  have g1: "get_session_requested
              (handleAuthCallback [] no_session (Rejects NonError) (Resolves ()))"
    by code_simp
  have g2: "rejected (Rejects NonError :: session_response outcome)"
    by (simp add: rejected_def)
  have e2: "\<not> empty_error_thrown no_session (Rejects NonError) (Resolves ())"
    by (simp add: empty_error_thrown_def no_session_def)
  have n2: "\<not> moved_on (handleAuthCallback [] no_session (Rejects NonError) (Resolves ()))"
    using c g1 g2 by simp
  have x2: "error_then_redirect
              (handleAuthCallback [] no_session (Rejects NonError) (Resolves ()))"
    using c n2 e2 by simp
  have i1: "initialize_dispatched
              (handleAuthCallback [] no_session session_set (Rejects (ErrorObj ''offline'')))"
    by code_simp
  have i2: "rejected (Rejects (ErrorObj ''offline'') :: unit outcome)"
    by (simp add: rejected_def)
  have e3: "\<not> empty_error_thrown no_session session_set (Rejects (ErrorObj ''offline''))"
    by (simp add: empty_error_thrown_def no_session_def session_set_def)
  have n3: "\<not> moved_on
                (handleAuthCallback [] no_session session_set (Rejects (ErrorObj ''offline'')))"
    using d i1 i2 by simp
  have x3: "error_then_redirect
              (handleAuthCallback [] no_session session_set (Rejects (ErrorObj ''offline'')))"
    using d n3 e3 by simp
  have f: "\<not> (submit_valid (Some sample_user) sample_passwords \<and>
                change_succeeded wrong_password)"
    by (simp add: change_succeeded_def wrong_password_def)
  have y: "\<exists>m. errors_shown (handleSubmit (Some sample_user) sample_passwords wrong_password) = [m]"
    using a f by simp
  show ?thesis
    using r1 r2 n1 x1 m1 h1 g1 g2 x2 i1 i2 x3 f y by simp
qed

section \<open>Route guards\<close>

text \<open>
  C6: for an authenticated user who is not loading and whose cached profile status is
  \<open>active\<close>, the public route redirects to \<open>redirectTo\<close> (\<open>/app\<close> when the prop is
  absent), except on \<open>/forgot-password\<close> with \<open>step=3\<close>, where it renders its children.
\<close>

theorem PublicRoute_active_redirect:
  "isAuthenticated \<and> \<not> isLoading \<and> profile = Some p \<and> au_status p = ''active'' \<longrightarrow>
   PublicRoute redirectTo isAuthenticated isLoading profile currentPath search =
     (if currentPath = ''/forgot-password'' \<and> params_get search ''step'' = Some ''3''
      then Children
      else NavigateTo (case redirectTo of None \<Rightarrow> ''/app'' | Some t \<Rightarrow> t))"
  by (simp add: PublicRoute_def Let_def)

theorem PublicRoute_active_redirect_witness:
  "au_status sample_profile = ''active'' \<and>
   PublicRoute None True False (Some sample_profile) ''/login'' [] = NavigateTo ''/app'' \<and>
   PublicRoute (Some ''/dashboard'') True False (Some sample_profile) ''/forgot-password''
     [(''step'', ''3'')] = Children"
proof -
  have a: "au_status sample_profile = ''active''"
    by (simp add: sample_profile_def)
  have g: "params_get [(''step'', ''3'')] ''step'' = Some ''3''"
    by (simp add: params_get_def)
  show ?thesis
    using a g
      PublicRoute_active_redirect
        [where isAuthenticated = True and isLoading = False and profile = "Some sample_profile"
           and p = sample_profile and redirectTo = None and currentPath = "''/login''"
           and search = "[]"]
      PublicRoute_active_redirect
        [where isAuthenticated = True and isLoading = False and profile = "Some sample_profile"
           and p = sample_profile and redirectTo = "Some ''/dashboard''"
           and currentPath = "''/forgot-password''" and search = "[(''step'', ''3'')]"]
    by simp
qed

text \<open>
  C7: once auth is initialized and the user is authenticated, the guard renders the
  children, with the phone collection modal over them exactly when the user has an id
  and the cached phone is absent, empty or white space only; while auth is not
  initialized it renders the loading screen; when auth is initialized and the user is
  not authenticated it renders nothing and navigates to \<open>/login\<close>.
\<close>

theorem ReduxAuthGuard_phone_collection:
  "(isInitialized \<and> isAuthenticated \<longrightarrow>
      ReduxAuthGuard isAuthenticated isInitialized profile usr path =
        (if has_id usr \<and> phone_missing profile then ChildrenWithPhoneModal else Children, [])) \<and>
   (\<not> isInitialized \<longrightarrow>
      fst (ReduxAuthGuard isAuthenticated isInitialized profile usr path) =
        LoadingScreen ''Checking authentication...'') \<and>
   (isInitialized \<and> \<not> isAuthenticated \<longrightarrow>
      ReduxAuthGuard isAuthenticated isInitialized profile usr path =
        (Nothing, [Do (Navigate ''/login'' True (Some path))]))"
  by (auto simp: ReduxAuthGuard_def hasPhone_iff Let_def)

theorem ReduxAuthGuard_phone_collection_witness:
  "has_id (Some sample_user) \<and> phone_missing (Some sample_profile) \<and>
   ReduxAuthGuard True True (Some sample_profile) (Some sample_user) ''/app'' =
     (ChildrenWithPhoneModal, []) \<and>
   ReduxAuthGuard False True None None ''/app'' =
     (Nothing, [Do (Navigate ''/login'' True (Some ''/app''))])"
proof -
  have i: "has_id (Some sample_user)"
    by (simp add: has_id_def sample_user_def)
  have m: "phone_missing (Some sample_profile)"
    by code_simp
  show ?thesis
    using i m
      ReduxAuthGuard_phone_collection
        [where isInitialized = True and isAuthenticated = True
           and profile = "Some sample_profile" and usr = "Some sample_user" and path = "''/app''"]
      ReduxAuthGuard_phone_collection
        [where isInitialized = True and isAuthenticated = False
           and profile = None and usr = None and path = "''/app''"]
    by simp
qed

end
